theory Spec2Isabelle
  imports Complex_Main
begin

section \<open>Values shared by the pages\<close>

text \<open>
  A rejected promise carries an error object; the handlers only ever read its
  \<open>message\<close>.  An awaited call is modelled by its outcome: \<open>Inl\<close> the rejection,
  \<open>Inr\<close> the resolved value.
\<close>

datatype jserror = JsError (message: string)

type_synonym 'a awaited = "jserror + 'a"

section \<open>Overview: the statistics dashboard\<close>

subsection \<open>Documents returned by the services\<close>

text \<open>
  Field \<open>$id\<close> of a document is written \<open>course_id\<close>.  A student's \<open>Course\<close> is
  the related course document, or \<open>None\<close> when the attribute is null or undefined
  (the source reads it with \<open>s.Course?.$id\<close>).
\<close>

record course =
  course_id :: string
  Programme :: string

record student =
  Course :: "course option"
  student_Status :: string

text \<open>
  \<open>Marked_at\<close> is whatever the attendance service stores for the timestamp (a date
  string, a number); its type is left open.
\<close>

record 'm attendance_record =
  Status :: string
  Marked_at :: 'm

text \<open>The resolved value of \<open>getStudents()\<close>: an object whose \<open>documents\<close> may be missing.\<close>

record students_response =
  documents :: "student list option"

subsection \<open>Dates\<close>

text \<open>
  A \<open>Date\<close> object is its time value: the milliseconds since the epoch, or \<open>None\<close>
  for an invalid date (time value NaN).  The constructor applied to a stored
  timestamp, \<open>new Date(r.Marked_at)\<close>, is a parameter \<open>newDate\<close> of the functions
  below, and the clock read by \<open>new Date()\<close> is a parameter \<open>now\<close>.

  \<open>Date.prototype.toDateString\<close> renders the weekday, month, day of the month and
  year of the date in local time, and \<open>Invalid Date\<close> for an invalid date.  Two such
  strings of valid dates are equal exactly when the dates lie on the same local
  calendar day, so the string is represented by the number of that day.  The local
  time zone is a parameter \<open>tz\<close>: the offset from UTC, in milliseconds, in force at
  a given time value.
\<close>

datatype dateString = Invalid_Date | Local_Day int

definition msPerDay :: int where
  "msPerDay = 86400000"

definition localDay :: "(int \<Rightarrow> int) \<Rightarrow> int \<Rightarrow> int" where
  "localDay tz t = (t + tz t) div msPerDay"

definition toDateString :: "(int \<Rightarrow> int) \<Rightarrow> int option \<Rightarrow> dateString" where
  "toDateString tz d = (case d of None \<Rightarrow> Invalid_Date | Some t \<Rightarrow> Local_Day (localDay tz t))"

subsection \<open>The aggregates\<close>

record todays_attendance =
  present :: nat
  absent :: nat
  total :: nat

record chart_entry =
  entry_name :: string
  entry_value :: nat

text \<open>
  The statistics object handed to \<open>setStats\<close>.  Its fifth field, the per-status
  distribution built with \<open>Object.entries\<close> over a reduce, plays no part in the
  properties below and is not represented.
\<close>

record statistics =
  totalStudents :: nat
  totalCourses :: nat
  todaysAttendance :: todays_attendance
  courseDistribution :: "chart_entry list"

text \<open>\<open>x || []\<close> on a response that is an array or null/undefined.\<close>

definition or_empty :: "'a list option \<Rightarrow> 'a list" where
  "or_empty r = (case r of None \<Rightarrow> [] | Some xs \<Rightarrow> xs)"

text \<open>\<open>s.Course?.$id === course.$id\<close>: undefined is never equal to a string.\<close>

definition enrolled_in :: "course \<Rightarrow> student \<Rightarrow> bool" where
  "enrolled_in c s = (case Course s of None \<Rightarrow> False | Some sc \<Rightarrow> course_id sc = course_id c)"

definition todaysRecords ::
  "(int \<Rightarrow> int) \<Rightarrow> ('m \<Rightarrow> int option) \<Rightarrow> int \<Rightarrow> 'm attendance_record list \<Rightarrow>
     'm attendance_record list" where
  "todaysRecords tz newDate now attendance =
     (let today = toDateString tz (Some now)
      in filter (\<lambda>r. toDateString tz (newDate (Marked_at r)) = today) attendance)"

definition todaysAttendanceOf ::
  "(int \<Rightarrow> int) \<Rightarrow> ('m \<Rightarrow> int option) \<Rightarrow> int \<Rightarrow> 'm attendance_record list \<Rightarrow>
     todays_attendance" where
  "todaysAttendanceOf tz newDate now attendance =
     (let recs = todaysRecords tz newDate now attendance
      in \<lparr> present = length (filter (\<lambda>r. Status r = ''Present'') recs),
           absent = length (filter (\<lambda>r. Status r = ''Absent'') recs),
           total = length recs \<rparr>)"

definition courseDistributionOf :: "course list \<Rightarrow> student list \<Rightarrow> chart_entry list" where
  "courseDistributionOf courses students =
     filter (\<lambda>c. entry_value c > 0)
       (map (\<lambda>c. \<lparr> entry_name = Programme c,
                    entry_value = length (filter (enrolled_in c) students) \<rparr>) courses)"

text \<open>The body of the \<open>try\<close> block once the three responses are there.\<close>

definition computeStatistics ::
  "(int \<Rightarrow> int) \<Rightarrow> ('m \<Rightarrow> int option) \<Rightarrow> int \<Rightarrow> students_response \<Rightarrow> course list option \<Rightarrow>
     'm attendance_record list option \<Rightarrow> statistics" where
  "computeStatistics tz newDate now studentsResponse coursesResponse attendanceResponse =
     (let students = or_empty (documents studentsResponse);
          courses = or_empty coursesResponse;
          attendance = or_empty attendanceResponse
      in \<lparr> totalStudents = length students,
           totalCourses = length courses,
           todaysAttendance = todaysAttendanceOf tz newDate now attendance,
           courseDistribution = courseDistributionOf courses students \<rparr>)"

subsection \<open>Component state, the fetch and the rendering\<close>

record overview_state =
  stats :: "statistics option"
  ov_loading :: bool
  ov_error :: "string option"

definition overview_init :: overview_state where
  "overview_init = \<lparr> stats = None, ov_loading = True, ov_error = None \<rparr>"

definition load_failed :: string where
  "load_failed = ''Failed to load dashboard data. Please try refreshing the page.''"

text \<open>
  \<open>fetchStatistics\<close>: \<open>Promise.all\<close> rejects as soon as one of the three calls
  rejects, and reading \<open>.documents\<close> of a null students response throws; both end
  in the \<open>catch\<close> branch.  The \<open>finally\<close> branch clears the loading flag on every
  path.  The outcomes of the three calls and the clock are the inputs.
\<close>

definition fetchStatistics ::
  "(int \<Rightarrow> int) \<Rightarrow> ('m \<Rightarrow> int option) \<Rightarrow> int \<Rightarrow>
     students_response option awaited \<Rightarrow> course list option awaited \<Rightarrow>
     'm attendance_record list option awaited \<Rightarrow> overview_state \<Rightarrow> overview_state" where
  "fetchStatistics tz newDate now getStudents fetchCourses getAttendance s =
     (let s1 = s\<lparr> ov_loading := True \<rparr>;
          s2 = (case (getStudents, fetchCourses, getAttendance) of
                  (Inr (Some studentsResponse), Inr coursesResponse, Inr attendanceResponse) \<Rightarrow>
                     s1\<lparr> stats := Some (computeStatistics tz newDate now studentsResponse
                                          coursesResponse attendanceResponse) \<rparr>
                | _ \<Rightarrow> s1\<lparr> ov_error := Some load_failed \<rparr>)
      in s2\<lparr> ov_loading := False \<rparr>)"

text \<open>What the component returns: the spinner, the error box, or the dashboard.\<close>

datatype overview_view =
  Spinner
| Error_Box string
| Dashboard "statistics option"

definition render_overview :: "overview_state \<Rightarrow> overview_view" where
  "render_overview s =
     (if ov_loading s then Spinner
      else case ov_error s of
             Some e \<Rightarrow> if e \<noteq> [] then Error_Box e else Dashboard (stats s)
           | None \<Rightarrow> Dashboard (stats s))"

section \<open>LocationManager\<close>

subsection \<open>Numbers and \<open>parseFloat\<close>\<close>

text \<open>
  A JavaScript Number that comes out of a decimal literal or out of \<open>parseFloat\<close>
  is the Number value for a mathematical value (the double nearest to it, the same
  rounding in both cases).  \<open>Num q\<close> stands for the Number value for the rational
  \<open>q\<close>; so the literal \<open>12.34\<close> is \<open>Num (1234 / 100)\<close>.  The sign of zero is not
  kept apart.
\<close>

datatype jsnum = NaN | PosInfinity | NegInfinity | Num rat

definition isWhiteSpace :: "char \<Rightarrow> bool" where
  "isWhiteSpace c = (of_char c \<in> {9, 10, 11, 12, 13, 32 :: nat})"

definition isDigit :: "char \<Rightarrow> bool" where
  "isDigit c = (48 \<le> (of_char c :: nat) \<and> (of_char c :: nat) \<le> 57)"

definition digitsValue :: "string \<Rightarrow> nat" where
  "digitsValue ds = foldl (\<lambda>a c. 10 * a + (of_char c - 48)) 0 ds"

text \<open>
  The exponent part \<open>e\<close>/\<open>E\<close>, an optional sign and at least one digit; when it is
  not complete the literal ends before it and the exponent is 0.
\<close>

definition exponentPart :: "string \<Rightarrow> int" where
  "exponentPart r =
     (case r of
        [] \<Rightarrow> 0
      | e # r1 \<Rightarrow>
          if e = CHR ''e'' \<or> e = CHR ''E'' then
            (case r1 of
               [] \<Rightarrow> 0
             | sg # r2 \<Rightarrow>
                 if sg = CHR ''-'' then
                   (if takeWhile isDigit r2 = [] then 0
                    else - int (digitsValue (takeWhile isDigit r2)))
                 else if sg = CHR ''+'' then int (digitsValue (takeWhile isDigit r2))
                 else int (digitsValue (takeWhile isDigit r1)))
          else 0)"

definition scale10 :: "rat \<Rightarrow> int \<Rightarrow> rat" where
  "scale10 q e = (if 0 \<le> e then q * 10 ^ nat e else q / 10 ^ nat (- e))"

text \<open>
  \<open>parseFloat\<close>: leading white space is dropped (the ASCII white space and line
  terminators), then the longest prefix that is a \<open>StrDecimalLiteral\<close> is read:
  a sign, then \<open>Infinity\<close> or digits with an optional fraction and exponent.  No
  such prefix gives NaN.
\<close>

definition parseFloat :: "string \<Rightarrow> jsnum" where
  "parseFloat inputString =
     (let trimmed = dropWhile isWhiteSpace inputString;
          neg = (case trimmed of [] \<Rightarrow> False | c # _ \<Rightarrow> c = CHR ''-'');
          u = (case trimmed of
                 [] \<Rightarrow> []
               | c # r \<Rightarrow> if c = CHR ''-'' \<or> c = CHR ''+'' then r else trimmed)
      in if take 8 u = ''Infinity'' then (if neg then NegInfinity else PosInfinity)
         else
           let ip = takeWhile isDigit u;
               r1 = dropWhile isDigit u;
               dot = (case r1 of [] \<Rightarrow> False | c # _ \<Rightarrow> c = CHR ''.'');
               fp = (if dot then takeWhile isDigit (tl r1) else []);
               r2 = (if dot then dropWhile isDigit (tl r1) else r1)
           in if ip = [] \<and> fp = [] then NaN
              else
                let m = scale10 (of_nat (digitsValue (ip @ fp)))
                          (exponentPart r2 - int (length fp))
                in Num (if neg then - m else m))"

subsection \<open>Documents, form and component state\<close>

text \<open>
  Field \<open>$id\<close> of a location document is written \<open>loc_id\<close>.  The identifier of a
  document is assigned by the backend and is never the empty string; the properties
  that depend on it say so.
\<close>

record location =
  loc_id :: string
  Latitude :: jsnum
  Longitude :: jsnum

text \<open>The object \<open>locationData\<close> sent to the service.\<close>

record location_data =
  data_Latitude :: jsnum
  data_Longitude :: jsnum

text \<open>The form holds the text of the two inputs.\<close>

record form_data =
  form_Latitude :: string
  form_Longitude :: string

record manager_state =
  locations :: "location list"
  lm_loading :: bool
  lm_error :: "string option"
  formData :: form_data
  editingLocationId :: "string option"

definition empty_form :: form_data where
  "empty_form = \<lparr> form_Latitude = [], form_Longitude = [] \<rparr>"

definition manager_init :: manager_state where
  "manager_init = \<lparr> locations = [], lm_loading = True, lm_error = None,
                     formData = empty_form, editingLocationId = None \<rparr>"

text \<open>
  \<open>editingLocationId\<close> is tested for truthiness: null and the empty string are
  both falsy.
\<close>

definition truthy :: "string option \<Rightarrow> bool" where
  "truthy v = (case v of None \<Rightarrow> False | Some s \<Rightarrow> s \<noteq> [])"

subsection \<open>Effects\<close>

text \<open>
  What a handler does besides setting state, in the order it does it: the toasts it
  shows, the confirmation prompt, and the calls it makes to the location service.
  \<open>toast.success\<close> and \<open>toast.error\<close> are given the id of the loading toast and so
  replace it.
\<close>

datatype effect =
  Toast_Loading string
| Toast_Success string
| Toast_Error string
| Window_Confirm string
| Call_addLocation location_data
| Call_updateLocation string location_data
| Call_deleteLocation string

text \<open>
  The location service, a black box: each function maps its arguments to the outcome
  of the awaited call.
\<close>

record location_service =
  addLocation :: "location_data \<Rightarrow> location awaited"
  updateLocation :: "string \<Rightarrow> location_data \<Rightarrow> location awaited"
  deleteLocation :: "string \<Rightarrow> unit awaited"

subsection \<open>Handlers\<close>

text \<open>\<open>loadLocations\<close>, the effect run on mount.\<close>

definition loadLocations :: "location list option awaited \<Rightarrow> manager_state \<Rightarrow> manager_state" where
  "loadLocations fetchLocations s =
     (let s1 = s\<lparr> lm_loading := True \<rparr>;
          s2 = (case fetchLocations of
                  Inr locationResponse \<Rightarrow>
                    s1\<lparr> locations := (case locationResponse of None \<Rightarrow> [] | Some ls \<Rightarrow> ls) \<rparr>
                | Inl err \<Rightarrow>
                    s1\<lparr> lm_error := Some (''Failed to fetch locations: '' @ message err) \<rparr>)
      in s2\<lparr> lm_loading := False \<rparr>)"

text \<open>
  \<open>handleInputChange\<close>: the input named \<open>name\<close> now reads \<open>v\<close>.  The form has the
  two inputs \<open>Latitude\<close> and \<open>Longitude\<close>; a key of another name would be added to the
  object and never read.
\<close>

definition handleInputChange :: "string \<Rightarrow> string \<Rightarrow> manager_state \<Rightarrow> manager_state" where
  "handleInputChange name v s =
     (if name = ''Latitude'' then s\<lparr> formData := (formData s)\<lparr> form_Latitude := v \<rparr> \<rparr>
      else if name = ''Longitude'' then s\<lparr> formData := (formData s)\<lparr> form_Longitude := v \<rparr> \<rparr>
      else s)"

text \<open>The object \<open>locationData\<close> that \<open>handleSubmit\<close> builds from the form.\<close>

definition locationDataOf :: "form_data \<Rightarrow> location_data" where
  "locationDataOf f = \<lparr> data_Latitude = parseFloat (form_Latitude f),
                         data_Longitude = parseFloat (form_Longitude f) \<rparr>"

text \<open>
  \<open>handleSubmit\<close>, run from the click to the end of the awaited call.  The state
  setters run only after the call has resolved; a rejection jumps to the \<open>catch\<close>
  branch, which sets no state.  No other handler is taken to run while the call is
  awaited, so the list that the functional update \<open>prev => ...\<close> receives is the list
  at the click.  \<open>if (editingLocationId)\<close> tests truthiness.
\<close>

definition handleSubmit :: "location_service \<Rightarrow> manager_state \<Rightarrow> effect list \<times> manager_state" where
  "handleSubmit svc s =
     (let editing = truthy (editingLocationId s);
          toastId = Toast_Loading (if editing then ''Updating...'' else ''Adding...'');
          locationData = locationDataOf (formData s)
      in if editing then
           (let eid = the (editingLocationId s)
            in case updateLocation svc eid locationData of
                 Inr updated \<Rightarrow>
                   ([toastId, Call_updateLocation eid locationData, Toast_Success ''Location updated!''],
                    s\<lparr> locations := map (\<lambda>loc. if loc_id loc = eid then updated else loc) (locations s),
                       formData := empty_form,
                       editingLocationId := None \<rparr>)
               | Inl err \<Rightarrow>
                   ([toastId, Call_updateLocation eid locationData, Toast_Error (message err)], s))
         else
           (case addLocation svc locationData of
              Inr newLocation \<Rightarrow>
                ([toastId, Call_addLocation locationData, Toast_Success ''Location added!''],
                 s\<lparr> locations := newLocation # locations s,
                    formData := empty_form,
                    editingLocationId := None \<rparr>)
            | Inl err \<Rightarrow>
                ([toastId, Call_addLocation locationData, Toast_Error (message err)], s)))"

text \<open>
  \<open>handleEdit\<close>.  \<open>Number.prototype.toString\<close> is a parameter \<open>toString\<close>.
\<close>

definition handleEdit :: "(jsnum \<Rightarrow> string) \<Rightarrow> location \<Rightarrow> manager_state \<Rightarrow> manager_state" where
  "handleEdit toString location s =
     s\<lparr> editingLocationId := Some (loc_id location),
        formData := \<lparr> form_Latitude = toString (Latitude location),
                      form_Longitude = toString (Longitude location) \<rparr> \<rparr>"

definition handleCancelEdit :: "manager_state \<Rightarrow> manager_state" where
  "handleCancelEdit s = s\<lparr> editingLocationId := None, formData := empty_form \<rparr>"

definition confirm_delete :: string where
  "confirm_delete = ''Are you sure you want to delete this location?''"

text \<open>\<open>handleDelete\<close>; \<open>confirmed\<close> is the answer given to \<open>window.confirm\<close>.\<close>

definition handleDelete ::
  "location_service \<Rightarrow> bool \<Rightarrow> string \<Rightarrow> manager_state \<Rightarrow> effect list \<times> manager_state" where
  "handleDelete svc confirmed locationId s =
     (if confirmed then
        (case deleteLocation svc locationId of
           Inr _ \<Rightarrow>
             ([Window_Confirm confirm_delete, Toast_Loading ''Deleting...'',
               Call_deleteLocation locationId, Toast_Success ''Location deleted.''],
              s\<lparr> locations := filter (\<lambda>loc. loc_id loc \<noteq> locationId) (locations s) \<rparr>)
         | Inl err \<Rightarrow>
             ([Window_Confirm confirm_delete, Toast_Loading ''Deleting...'',
               Call_deleteLocation locationId, Toast_Error (message err)], s))
      else ([Window_Confirm confirm_delete], s))"

text \<open>The service calls among the effects of a handler, in order.\<close>

fun is_call :: "effect \<Rightarrow> bool" where
  "is_call (Call_addLocation _) = True"
| "is_call (Call_updateLocation _ _) = True"
| "is_call (Call_deleteLocation _) = True"
| "is_call _ = False"

definition service_calls :: "effect list \<Rightarrow> effect list" where
  "service_calls effs = filter is_call effs"

section \<open>AppearanceSettings\<close>

text \<open>
  The component's \<open>theme\<close> state, the browser's \<open>localStorage\<close> and the class list
  of the document's root element.  The root's dark style flag is the presence of the
  class \<open>dark\<close>.  The persisted key \<open>theme\<close> holds \<open>light\<close> or \<open>dark\<close>, or is absent,
  which means the system default; the page writes nothing else.
\<close>

record appearance_state =
  theme :: string
  localStorage :: "string \<rightharpoonup> string"
  classList :: "string set"

text \<open>\<open>classList.toggle(token, force)\<close>: adds the token when \<open>force\<close>, removes it otherwise.\<close>

definition toggle :: "string \<Rightarrow> bool \<Rightarrow> string set \<Rightarrow> string set" where
  "toggle token force cl = (if force then insert token cl else cl - {token})"

definition dark_flag :: "appearance_state \<Rightarrow> bool" where
  "dark_flag s = (''dark'' \<in> classList s)"

text \<open>The initial \<open>theme\<close> state: \<open>localStorage.getItem('theme') || 'system'\<close>.\<close>

definition initial_theme :: "(string \<rightharpoonup> string) \<Rightarrow> string" where
  "initial_theme store = (if truthy (store ''theme'') then the (store ''theme'') else ''system'')"

text \<open>
  \<open>handleThemeChange\<close>; \<open>prefersDark\<close> is what
  \<open>window.matchMedia('(prefers-color-scheme: dark)').matches\<close> reads at the call.
\<close>

definition handleThemeChange :: "bool \<Rightarrow> string \<Rightarrow> appearance_state \<Rightarrow> appearance_state" where
  "handleThemeChange prefersDark newTheme s =
     (if newTheme = ''system'' then
        s\<lparr> theme := newTheme,
           localStorage := (localStorage s)(''theme'' := None),
           classList := toggle ''dark'' prefersDark (classList s) \<rparr>
      else
        s\<lparr> theme := newTheme,
           localStorage := (localStorage s)(''theme'' \<mapsto> newTheme),
           classList := toggle ''dark'' (newTheme = ''dark'') (classList s) \<rparr>)"

text \<open>
  \<open>handleChange\<close>, the listener on the media query; \<open>matches\<close> is the query's value
  when the change event fires.  \<open>getItem\<close> gives null or the stored string, and the
  test is for truthiness.
\<close>

definition handleChange :: "bool \<Rightarrow> appearance_state \<Rightarrow> appearance_state" where
  "handleChange matches s =
     (if \<not> truthy (localStorage s ''theme'')
      then s\<lparr> classList := toggle ''dark'' matches (classList s) \<rparr>
      else s)"

section \<open>Notions used to state the properties\<close>

text \<open>A record marked on the current local calendar day.\<close>

definition marked_today ::
  "(int \<Rightarrow> int) \<Rightarrow> ('m \<Rightarrow> int option) \<Rightarrow> int \<Rightarrow> 'm attendance_record \<Rightarrow> bool" where
  "marked_today tz newDate now r =
     (case newDate (Marked_at r) of
        None \<Rightarrow> False
      | Some t \<Rightarrow> localDay tz t = localDay tz now)"

text \<open>
  The number of students whose course reference has the identifier of a course, the
  chart entry of a course, and the distribution that lists every course.
\<close>

definition enrolment_count :: "student list \<Rightarrow> course \<Rightarrow> nat" where
  "enrolment_count students c =
     length (filter (\<lambda>s. case Course s of None \<Rightarrow> False | Some sc \<Rightarrow> course_id sc = course_id c) students)"

definition entry_of_course :: "student list \<Rightarrow> course \<Rightarrow> chart_entry" where
  "entry_of_course students c = \<lparr> entry_name = Programme c, entry_value = enrolment_count students c \<rparr>"

definition every_course_entry :: "course list \<Rightarrow> student list \<Rightarrow> chart_entry list" where
  "every_course_entry courses students = map (entry_of_course students) courses"

definition has_student :: "student list \<Rightarrow> course \<Rightarrow> bool" where
  "has_student students c = list_ex (\<lambda>s. case Course s of None \<Rightarrow> False | Some sc \<Rightarrow> course_id sc = course_id c) students"

text \<open>
  The persisted theme preference is in its domain: \<open>light\<close>, \<open>dark\<close>, or no key.  The
  three theme buttons pass \<open>light\<close>, \<open>dark\<close> and \<open>system\<close>.
\<close>

definition stored_theme_valid :: "appearance_state \<Rightarrow> bool" where
  "stored_theme_valid s = (localStorage s ''theme'' \<in> {None, Some ''light'', Some ''dark''})"

definition theme_button :: "string \<Rightarrow> bool" where
  "theme_button mode = (mode \<in> {''light'', ''dark'', ''system''})"

section \<open>Concrete inputs\<close>

text \<open>A fixed offset of five and a half hours east of UTC, and an instant.\<close>

definition tz_example :: "int \<Rightarrow> int" where
  "tz_example t = 19800000"

definition now_example :: int where
  "now_example = 1762165800000"

text \<open>
  The \<open>Date\<close> constructor on a number of milliseconds: that time value when it is in
  the range of dates, an invalid date otherwise.
\<close>

definition date_of_number :: "int \<Rightarrow> int option" where
  "date_of_number t = (if \<bar>t\<bar> \<le> 8640000000000000 then Some t else None)"

definition attendance_example :: "int attendance_record list" where
  "attendance_example =
     [\<lparr> Status = ''Present'', Marked_at = now_example \<rparr>,
      \<lparr> Status = ''Absent'', Marked_at = now_example + 60000 \<rparr>,
      \<lparr> Status = ''Present'', Marked_at = now_example - 86400000 \<rparr>]"

definition bca :: course where
  "bca = \<lparr> course_id = ''c1'', Programme = ''BCA'' \<rparr>"

definition mca :: course where
  "mca = \<lparr> course_id = ''c2'', Programme = ''MCA'' \<rparr>"

definition students_example :: "student list" where
  "students_example = [\<lparr> Course = Some bca, student_Status = ''Active'' \<rparr>,
                       \<lparr> Course = None, student_Status = ''Active'' \<rparr>,
                       \<lparr> Course = Some bca, student_Status = ''Inactive'' \<rparr>]"

text \<open>A service that accepts every call, and one that rejects every call.\<close>

definition accepting_service :: location_service where
  "accepting_service =
     \<lparr> addLocation = (\<lambda>d. Inr \<lparr> loc_id = ''new'', Latitude = data_Latitude d, Longitude = data_Longitude d \<rparr>),
       updateLocation = (\<lambda>i d. Inr \<lparr> loc_id = i, Latitude = data_Latitude d, Longitude = data_Longitude d \<rparr>),
       deleteLocation = (\<lambda>i. Inr ()) \<rparr>"

definition network_down :: jserror where
  "network_down = JsError ''Network request failed''"

definition rejecting_service :: location_service where
  "rejecting_service =
     \<lparr> addLocation = (\<lambda>d. Inl network_down),
       updateLocation = (\<lambda>i d. Inl network_down),
       deleteLocation = (\<lambda>i. Inl network_down) \<rparr>"

definition loc_a :: location where
  "loc_a = \<lparr> loc_id = ''a'', Latitude = Num 1, Longitude = Num 2 \<rparr>"

definition loc_b :: location where
  "loc_b = \<lparr> loc_id = ''b'', Latitude = Num 3, Longitude = Num 4 \<rparr>"

text \<open>A service whose update moves the location to other coordinates.\<close>

definition moved_b :: location where
  "moved_b = \<lparr> loc_id = ''b'', Latitude = Num 7, Longitude = Num 8 \<rparr>"

definition moving_service :: location_service where
  "moving_service =
     \<lparr> addLocation = (\<lambda>d. Inl network_down),
       updateLocation = (\<lambda>i d. Inr \<lparr> loc_id = i, Latitude = Num 7, Longitude = Num 8 \<rparr>),
       deleteLocation = (\<lambda>i. Inl network_down) \<rparr>"

definition adding_state :: manager_state where
  "adding_state = \<lparr> locations = [loc_a, loc_b], lm_loading = False, lm_error = None,
                     formData = \<lparr> form_Latitude = ''12.34'', form_Longitude = ''56.78'' \<rparr>,
                     editingLocationId = None \<rparr>"

definition editing_state :: manager_state where
  "editing_state = \<lparr> locations = [loc_a, loc_b], lm_loading = False, lm_error = None,
                      formData = \<lparr> form_Latitude = ''1.5'', form_Longitude = ''2.5'' \<rparr>,
                      editingLocationId = Some ''b'' \<rparr>"

definition show_num :: "jsnum \<Rightarrow> string" where
  "show_num x = (if x = Num 1 then ''1'' else if x = Num 2 then ''2'' else if x = Num 3 then ''3''
                 else if x = Num 4 then ''4'' else if x = Num 5 then ''5'' else ''6'')"

definition light_on_dark_os :: appearance_state where
  "light_on_dark_os = \<lparr> theme = ''light'', localStorage = [''theme'' \<mapsto> ''light''], classList = {} \<rparr>"

definition system_state :: appearance_state where
  "system_state = \<lparr> theme = ''system'', localStorage = Map.empty, classList = {''dark''} \<rparr>"

section \<open>Overview: properties\<close>

lemma toDateString_today_iff:
  "toDateString tz (newDate (Marked_at r)) = toDateString tz (Some now)
     \<longleftrightarrow> marked_today tz newDate now r"
  by (simp add: toDateString_def marked_today_def split: option.split)

lemma todaysRecords_eq:
  "todaysRecords tz newDate now attendance = filter (marked_today tz newDate now) attendance"
  by (simp add: todaysRecords_def toDateString_today_iff)

lemma stats_of_resolved:
  "stats (fetchStatistics tz newDate now (Inr (Some sr)) (Inr cr) (Inr ar) s) =
     Some (computeStatistics tz newDate now sr cr ar)"
  by (simp add: fetchStatistics_def)

lemma todaysAttendance_computeStatistics:
  "todaysAttendance (computeStatistics tz newDate now sr cr ar) =
     todaysAttendanceOf tz newDate now (or_empty ar)"
  by (simp add: computeStatistics_def Let_def)

lemma present_count:
  "present (todaysAttendanceOf tz newDate now attendance) =
     length (filter (\<lambda>r. Status r = ''Present'' \<and> marked_today tz newDate now r) attendance)"
  by (simp add: todaysAttendanceOf_def Let_def todaysRecords_eq conj_commute)

lemma absent_count:
  "absent (todaysAttendanceOf tz newDate now attendance) =
     length (filter (\<lambda>r. Status r = ''Absent'' \<and> marked_today tz newDate now r) attendance)"
  by (simp add: todaysAttendanceOf_def Let_def todaysRecords_eq conj_commute)

text \<open>
  C1.  When the three fetches resolve, the statistics hold as \<open>present\<close> the number
  of attendance records whose \<open>Status\<close> is \<open>Present\<close> and whose \<open>Marked_at\<close> lies on
  the current local calendar day, and as \<open>absent\<close> the number of those with \<open>Status\<close>
  \<open>Absent\<close> on that day.  For a record present today, a record absent today and a
  record present yesterday the counts are 1 and 1.
\<close>

theorem todays_counts:
  fixes attendance :: "'m attendance_record list"
  shows "(\<exists>st. stats (fetchStatistics tz newDate now (Inr (Some sr)) (Inr cr) (Inr (Some attendance)) s)
                = Some st
          \<and> present (todaysAttendance st) =
              length (filter (\<lambda>r. Status r = ''Present'' \<and> marked_today tz newDate now r) attendance)
          \<and> absent (todaysAttendance st) =
              length (filter (\<lambda>r. Status r = ''Absent'' \<and> marked_today tz newDate now r) attendance))
      \<and> (newDate m1 = Some t1 \<and> localDay tz t1 = localDay tz now
          \<and> newDate m2 = Some t2 \<and> localDay tz t2 = localDay tz now
          \<and> newDate m3 = Some y \<and> localDay tz y = localDay tz now - 1 \<longrightarrow>
          (\<exists>st. stats (fetchStatistics tz newDate now (Inr (Some sr)) (Inr cr)
                   (Inr (Some [\<lparr> Status = ''Present'', Marked_at = m1 \<rparr>,
                               \<lparr> Status = ''Absent'', Marked_at = m2 \<rparr>,
                               \<lparr> Status = ''Present'', Marked_at = m3 \<rparr>])) s) = Some st
             \<and> present (todaysAttendance st) = 1 \<and> absent (todaysAttendance st) = 1))"
proof (intro conjI impI)
  show "\<exists>st. stats (fetchStatistics tz newDate now (Inr (Some sr)) (Inr cr) (Inr (Some attendance)) s)
                = Some st
          \<and> present (todaysAttendance st) =
              length (filter (\<lambda>r. Status r = ''Present'' \<and> marked_today tz newDate now r) attendance)
          \<and> absent (todaysAttendance st) =
              length (filter (\<lambda>r. Status r = ''Absent'' \<and> marked_today tz newDate now r) attendance)"
    by (simp add: stats_of_resolved todaysAttendance_computeStatistics or_empty_def
        present_count absent_count)
next
  assume days: "newDate m1 = Some t1 \<and> localDay tz t1 = localDay tz now
          \<and> newDate m2 = Some t2 \<and> localDay tz t2 = localDay tz now
          \<and> newDate m3 = Some y \<and> localDay tz y = localDay tz now - 1"
  then have "marked_today tz newDate now \<lparr> Status = ''Present'', Marked_at = m1 \<rparr>"
    and "marked_today tz newDate now \<lparr> Status = ''Absent'', Marked_at = m2 \<rparr>"
    and "\<not> marked_today tz newDate now \<lparr> Status = ''Present'', Marked_at = m3 \<rparr>"
    by (simp_all add: marked_today_def)
  then show "\<exists>st. stats (fetchStatistics tz newDate now (Inr (Some sr)) (Inr cr)
                   (Inr (Some [\<lparr> Status = ''Present'', Marked_at = m1 \<rparr>,
                               \<lparr> Status = ''Absent'', Marked_at = m2 \<rparr>,
                               \<lparr> Status = ''Present'', Marked_at = m3 \<rparr>])) s) = Some st
             \<and> present (todaysAttendance st) = 1 \<and> absent (todaysAttendance st) = 1"
    by (simp add: stats_of_resolved todaysAttendance_computeStatistics or_empty_def
        present_count absent_count)
qed

theorem todays_counts_witness:
  "date_of_number now_example = Some now_example
   \<and> localDay tz_example now_example = localDay tz_example now_example
   \<and> date_of_number (now_example + 60000) = Some (now_example + 60000)
   \<and> localDay tz_example (now_example + 60000) = localDay tz_example now_example
   \<and> date_of_number (now_example - 86400000) = Some (now_example - 86400000)
   \<and> localDay tz_example (now_example - 86400000) = localDay tz_example now_example - 1
   \<and> (\<exists>st. stats (fetchStatistics tz_example date_of_number now_example
                   (Inr (Some \<lparr> documents = None \<rparr>)) (Inr None)
                   (Inr (Some attendance_example)) overview_init) = Some st
             \<and> present (todaysAttendance st) = 1 \<and> absent (todaysAttendance st) = 1)"
  using todays_counts [of tz_example date_of_number now_example "\<lparr> documents = None \<rparr>" None
      "[]" overview_init now_example now_example "now_example + 60000" "now_example + 60000"
      "now_example - 86400000" "now_example - 86400000"]
  by (simp add: localDay_def tz_example_def now_example_def msPerDay_def date_of_number_def
      attendance_example_def)

lemma enrolled_in_count: "length (filter (enrolled_in c) students) = enrolment_count students c"
  by (simp add: enrolment_count_def enrolled_in_def [abs_def])

lemma enrolment_pos_iff: "0 < enrolment_count students c \<longleftrightarrow> has_student students c"
  by (induction students) (auto simp: enrolment_count_def has_student_def split: option.splits)

lemma entry_value_of_course: "entry_value (entry_of_course students c) = enrolment_count students c"
  by (simp add: entry_of_course_def)

text \<open>
  The distribution does not list every course: with two students enrolled in the
  first of two courses and none in the second, it has the first course only.
\<close>

theorem course_distribution_counterexample:
  "courseDistribution (computeStatistics tz_example date_of_number now_example
       \<lparr> documents = Some students_example \<rparr> (Some [bca, mca]) None)
     \<noteq> every_course_entry [bca, mca] students_example
   \<and> courseDistribution (computeStatistics tz_example date_of_number now_example
       \<lparr> documents = Some students_example \<rparr> (Some [bca, mca]) None)
     = [\<lparr> entry_name = ''BCA'', entry_value = 2 \<rparr>]
   \<and> every_course_entry [bca, mca] students_example
     = [\<lparr> entry_name = ''BCA'', entry_value = 2 \<rparr>, \<lparr> entry_name = ''MCA'', entry_value = 0 \<rparr>]"
  by (simp add: computeStatistics_def or_empty_def courseDistributionOf_def enrolled_in_def
      every_course_entry_def entry_of_course_def enrolment_count_def students_example_def bca_def mca_def)

text \<open>
  C2, amended.  The per-course distribution has one entry for each course that has at
  least one enrolled student, in the order of the course list: the course's programme
  name with the number of students whose course reference has the course's
  identifier.  Courses without students are left out.
\<close>

theorem course_distribution_enrolled_courses:
  "courseDistribution (computeStatistics tz newDate now \<lparr> documents = Some students \<rparr> (Some courses) ar)
     = map (entry_of_course students) (filter (has_student students) courses)"
  by (simp add: computeStatistics_def or_empty_def courseDistributionOf_def enrolled_in_count
      filter_map comp_def entry_of_course_def [symmetric] entry_value_of_course enrolment_pos_iff
      has_student_def [abs_def, symmetric])

text \<open>
  C9.  When one of the three fetches rejects, the error is set to the fixed message,
  the component renders the error box with that message, and the statistics are
  left as they were: nothing is computed from the fetches that resolved.
\<close>

theorem rejected_fetch_shows_error:
  assumes "isl getStudents \<or> isl fetchCourses \<or> isl getAttendance"
  shows "ov_error (fetchStatistics tz newDate now getStudents fetchCourses getAttendance s) = Some load_failed
     \<and> render_overview (fetchStatistics tz newDate now getStudents fetchCourses getAttendance s) = Error_Box load_failed
     \<and> stats (fetchStatistics tz newDate now getStudents fetchCourses getAttendance s) = stats s"
proof -
  have "fetchStatistics tz newDate now getStudents fetchCourses getAttendance s
          = s\<lparr> ov_error := Some load_failed, ov_loading := False \<rparr>"
    using assms by (auto simp: fetchStatistics_def Let_def split: sum.splits option.splits)
  then show ?thesis
    by (simp add: render_overview_def load_failed_def)
qed

theorem rejected_fetch_shows_error_witness:
  "isl (Inl (JsError ''Network request failed'') :: course list option awaited)
   \<and> ov_error (fetchStatistics tz_example date_of_number now_example
        (Inr (Some \<lparr> documents = Some students_example \<rparr>))
        (Inl (JsError ''Network request failed'')) (Inr (Some attendance_example)) overview_init) = Some load_failed
   \<and> render_overview (fetchStatistics tz_example date_of_number now_example
        (Inr (Some \<lparr> documents = Some students_example \<rparr>))
        (Inl (JsError ''Network request failed'')) (Inr (Some attendance_example)) overview_init) = Error_Box load_failed
   \<and> stats (fetchStatistics tz_example date_of_number now_example
        (Inr (Some \<lparr> documents = Some students_example \<rparr>))
        (Inl (JsError ''Network request failed'')) (Inr (Some attendance_example)) overview_init) = None"
  using rejected_fetch_shows_error [of "Inr (Some \<lparr> documents = Some students_example \<rparr>)"
      "Inl (JsError ''Network request failed'')" "Inr (Some attendance_example)" tz_example
      date_of_number now_example overview_init]
  by (simp add: overview_init_def)

section \<open>LocationManager: properties\<close>

lemmas parse_defs = parseFloat_def isWhiteSpace_def isDigit_def digitsValue_def exponentPart_def
  scale10_def locationDataOf_def

lemma parse_12_34: "parseFloat ''12.34'' = Num (1234 / 100)"
  by (simp add: parse_defs)

lemma parse_56_78: "parseFloat ''56.78'' = Num (5678 / 100)"
  by (simp add: parse_defs)

lemma submit_add_resolved:
  "\<not> truthy (editingLocationId s) \<Longrightarrow> addLocation svc (locationDataOf (formData s)) = Inr new \<Longrightarrow>
   handleSubmit svc s =
     ([Toast_Loading ''Adding...'', Call_addLocation (locationDataOf (formData s)),
       Toast_Success ''Location added!''],
      s\<lparr> locations := new # locations s, formData := empty_form, editingLocationId := None \<rparr>)"
  by (simp add: handleSubmit_def Let_def)

lemma submit_add_rejected:
  "\<not> truthy (editingLocationId s) \<Longrightarrow> addLocation svc (locationDataOf (formData s)) = Inl err \<Longrightarrow>
   handleSubmit svc s =
     ([Toast_Loading ''Adding...'', Call_addLocation (locationDataOf (formData s)),
       Toast_Error (message err)], s)"
  by (simp add: handleSubmit_def Let_def)

lemma submit_update_resolved:
  "editingLocationId s = Some eid \<Longrightarrow> eid \<noteq> [] \<Longrightarrow>
   updateLocation svc eid (locationDataOf (formData s)) = Inr updated \<Longrightarrow>
   handleSubmit svc s =
     ([Toast_Loading ''Updating...'', Call_updateLocation eid (locationDataOf (formData s)),
       Toast_Success ''Location updated!''],
      s\<lparr> locations := map (\<lambda>loc. if loc_id loc = eid then updated else loc) (locations s),
         formData := empty_form, editingLocationId := None \<rparr>)"
  by (simp add: handleSubmit_def Let_def truthy_def)

lemma submit_update_rejected:
  "editingLocationId s = Some eid \<Longrightarrow> eid \<noteq> [] \<Longrightarrow>
   updateLocation svc eid (locationDataOf (formData s)) = Inl err \<Longrightarrow>
   handleSubmit svc s =
     ([Toast_Loading ''Updating...'', Call_updateLocation eid (locationDataOf (formData s)),
       Toast_Error (message err)], s)"
  by (simp add: handleSubmit_def Let_def truthy_def)

lemma truthy_cases:
  "truthy v \<longleftrightarrow> (\<exists>eid. v = Some eid \<and> eid \<noteq> [])"
  by (cases v) (simp_all add: truthy_def)

lemma submit_calls:
  "service_calls (fst (handleSubmit svc s)) =
     [if truthy (editingLocationId s)
      then Call_updateLocation (the (editingLocationId s)) (locationDataOf (formData s))
      else Call_addLocation (locationDataOf (formData s))]"
  by (simp add: handleSubmit_def Let_def service_calls_def split: sum.split)

lemma delete_resolved:
  "deleteLocation svc i = Inr u \<Longrightarrow>
   handleDelete svc True i s =
     ([Window_Confirm confirm_delete, Toast_Loading ''Deleting...'', Call_deleteLocation i,
       Toast_Success ''Location deleted.''],
      s\<lparr> locations := filter (\<lambda>loc. loc_id loc \<noteq> i) (locations s) \<rparr>)"
  by (simp add: handleDelete_def)

lemma delete_rejected:
  "deleteLocation svc i = Inl err \<Longrightarrow>
   handleDelete svc True i s =
     ([Window_Confirm confirm_delete, Toast_Loading ''Deleting...'', Call_deleteLocation i,
       Toast_Error (message err)], s)"
  by (simp add: handleDelete_def)

lemma delete_declined:
  "handleDelete svc False i s = ([Window_Confirm confirm_delete], s)"
  by (simp add: handleDelete_def)

text \<open>
  C3.  When the remote call of an add, an update or a delete rejects, the location
  list after the handler is the list before it and the last notification is an error
  toast with the rejection's message.  The list changes only when the call has
  resolved (and, for a delete, the prompt was confirmed).
\<close>

theorem rejected_call_keeps_locations:
  "(\<not> truthy (editingLocationId s) \<and> addLocation svc (locationDataOf (formData s)) = Inl err \<longrightarrow>
      locations (snd (handleSubmit svc s)) = locations s
      \<and> last (fst (handleSubmit svc s)) = Toast_Error (message err))
   \<and> (editingLocationId s = Some eid \<and> eid \<noteq> []
        \<and> updateLocation svc eid (locationDataOf (formData s)) = Inl err \<longrightarrow>
      locations (snd (handleSubmit svc s)) = locations s
      \<and> last (fst (handleSubmit svc s)) = Toast_Error (message err))
   \<and> (deleteLocation svc i = Inl err \<longrightarrow>
      locations (snd (handleDelete svc True i s)) = locations s
      \<and> last (fst (handleDelete svc True i s)) = Toast_Error (message err))
   \<and> (locations (snd (handleSubmit svc s)) \<noteq> locations s \<longrightarrow>
      (if truthy (editingLocationId s)
       then \<exists>eid r. editingLocationId s = Some eid
              \<and> updateLocation svc eid (locationDataOf (formData s)) = Inr r
       else \<exists>r. addLocation svc (locationDataOf (formData s)) = Inr r))
   \<and> (locations (snd (handleDelete svc confirmed i s)) \<noteq> locations s \<longrightarrow>
      confirmed \<and> deleteLocation svc i = Inr ())"
proof (intro conjI impI)
  assume "\<not> truthy (editingLocationId s) \<and> addLocation svc (locationDataOf (formData s)) = Inl err"
  then show "locations (snd (handleSubmit svc s)) = locations s"
    and "last (fst (handleSubmit svc s)) = Toast_Error (message err)"
    by (simp_all add: submit_add_rejected)
next
  assume "editingLocationId s = Some eid \<and> eid \<noteq> []
        \<and> updateLocation svc eid (locationDataOf (formData s)) = Inl err"
  then show "locations (snd (handleSubmit svc s)) = locations s"
    and "last (fst (handleSubmit svc s)) = Toast_Error (message err)"
    by (simp_all add: submit_update_rejected)
next
  assume "deleteLocation svc i = Inl err"
  then show "locations (snd (handleDelete svc True i s)) = locations s"
    and "last (fst (handleDelete svc True i s)) = Toast_Error (message err)"
    by (simp_all add: delete_rejected)
next
  assume changed: "locations (snd (handleSubmit svc s)) \<noteq> locations s"
  show "if truthy (editingLocationId s)
       then \<exists>eid r. editingLocationId s = Some eid
              \<and> updateLocation svc eid (locationDataOf (formData s)) = Inr r
       else \<exists>r. addLocation svc (locationDataOf (formData s)) = Inr r"
  proof (cases "truthy (editingLocationId s)")
    case True
    then obtain eid where eid: "editingLocationId s = Some eid" "eid \<noteq> []"
      by (auto simp: truthy_cases)
    show ?thesis
    proof (cases "updateLocation svc eid (locationDataOf (formData s))")
      case (Inl err)
      with eid changed show ?thesis by (simp add: submit_update_rejected)
    next
      case (Inr r)
      with eid True show ?thesis by simp
    qed
  next
    case False
    show ?thesis
    proof (cases "addLocation svc (locationDataOf (formData s))")
      case (Inl err)
      with False changed show ?thesis by (simp add: submit_add_rejected)
    next
      case (Inr r)
      with False show ?thesis by simp
    qed
  qed
next
  assume changed: "locations (snd (handleDelete svc confirmed i s)) \<noteq> locations s"
  then show "confirmed"
    by (cases confirmed) (simp_all add: delete_declined)
  from changed show "deleteLocation svc i = Inr ()"
    by (cases confirmed; cases "deleteLocation svc i") (simp_all add: delete_declined delete_rejected)
qed

theorem rejected_call_keeps_locations_witness:
  "(\<not> truthy (editingLocationId adding_state)
      \<and> addLocation rejecting_service (locationDataOf (formData adding_state)) = Inl network_down
      \<and> locations (snd (handleSubmit rejecting_service adding_state)) = [loc_a, loc_b]
      \<and> last (fst (handleSubmit rejecting_service adding_state)) = Toast_Error ''Network request failed'')
   \<and> (editingLocationId editing_state = Some ''b'' \<and> ''b'' \<noteq> []
      \<and> updateLocation rejecting_service ''b'' (locationDataOf (formData editing_state)) = Inl network_down
      \<and> locations (snd (handleSubmit rejecting_service editing_state)) = [loc_a, loc_b]
      \<and> last (fst (handleSubmit rejecting_service editing_state)) = Toast_Error ''Network request failed'')
   \<and> (deleteLocation rejecting_service ''a'' = Inl network_down
      \<and> locations (snd (handleDelete rejecting_service True ''a'' adding_state)) = [loc_a, loc_b]
      \<and> last (fst (handleDelete rejecting_service True ''a'' adding_state)) = Toast_Error ''Network request failed'')
   \<and> (locations (snd (handleSubmit accepting_service adding_state)) \<noteq> locations adding_state
      \<and> \<not> truthy (editingLocationId adding_state)
      \<and> (\<exists>r. addLocation accepting_service (locationDataOf (formData adding_state)) = Inr r))
   \<and> (locations (snd (handleDelete accepting_service True ''a'' adding_state)) \<noteq> locations adding_state
      \<and> deleteLocation accepting_service ''a'' = Inr ())"
proof -
  have 1: "\<not> truthy (editingLocationId adding_state)"
    by (simp add: adding_state_def truthy_def)
  have 2: "addLocation rejecting_service (locationDataOf (formData adding_state)) = Inl network_down"
    by (simp add: rejecting_service_def)
  have 3: "editingLocationId editing_state = Some ''b''"
    by (simp add: editing_state_def)
  have 4: "updateLocation rejecting_service ''b'' (locationDataOf (formData editing_state)) = Inl network_down"
    by (simp add: rejecting_service_def)
  have 5: "deleteLocation rejecting_service ''a'' = Inl network_down"
    by (simp add: rejecting_service_def)
  have 6: "locations (snd (handleSubmit accepting_service adding_state)) \<noteq> locations adding_state"
    by (simp add: submit_add_resolved [OF 1] accepting_service_def)
  have 7: "locations (snd (handleDelete accepting_service True ''a'' adding_state)) \<noteq> locations adding_state"
    by (simp add: handleDelete_def accepting_service_def adding_state_def loc_a_def loc_b_def)
  have locs: "locations adding_state = [loc_a, loc_b]" "locations editing_state = [loc_a, loc_b]"
    by (simp_all add: adding_state_def editing_state_def)
  have msg: "message network_down = ''Network request failed''"
    by (simp add: network_down_def)
  show ?thesis
    using rejected_call_keeps_locations [of adding_state rejecting_service network_down "''b''" "''a''" True]
      rejected_call_keeps_locations [of editing_state rejecting_service network_down "''b''" "''a''" True]
      rejected_call_keeps_locations [of adding_state accepting_service network_down "''b''" "''a''" True]
      1 2 3 4 5 6 7
    by (simp add: locs msg)
qed

text \<open>
  C4.  With \<open>12.34\<close> and \<open>56.78\<close> in the form and no editing id, a submit makes one
  service call, \<open>addLocation\<close> with the numbers 12.34 and 56.78; when it resolves, the
  returned record is put in front of the list, the rest of the list as it was.
\<close>

theorem add_form_submit:
  assumes "formData s = \<lparr> form_Latitude = ''12.34'', form_Longitude = ''56.78'' \<rparr>"
    and "editingLocationId s = None"
  shows "service_calls (fst (handleSubmit svc s)) =
           [Call_addLocation \<lparr> data_Latitude = Num (1234 / 100), data_Longitude = Num (5678 / 100) \<rparr>]
     \<and> (addLocation svc \<lparr> data_Latitude = Num (1234 / 100), data_Longitude = Num (5678 / 100) \<rparr> = Inr new
          \<longrightarrow> locations (snd (handleSubmit svc s)) = new # locations s)"
proof -
  have data: "locationDataOf (formData s) =
      \<lparr> data_Latitude = Num (1234 / 100), data_Longitude = Num (5678 / 100) \<rparr>"
    using assms(1) parse_12_34 parse_56_78 by (simp add: locationDataOf_def)
  have add: "\<not> truthy (editingLocationId s)"
    using assms(2) by (simp add: truthy_def)
  show ?thesis
    using data add by (auto simp: submit_calls submit_add_resolved)
qed

theorem add_form_submit_witness:
  "formData adding_state = \<lparr> form_Latitude = ''12.34'', form_Longitude = ''56.78'' \<rparr>
   \<and> editingLocationId adding_state = None
   \<and> service_calls (fst (handleSubmit accepting_service adding_state)) =
           [Call_addLocation \<lparr> data_Latitude = Num (1234 / 100), data_Longitude = Num (5678 / 100) \<rparr>]
   \<and> addLocation accepting_service \<lparr> data_Latitude = Num (1234 / 100), data_Longitude = Num (5678 / 100) \<rparr>
       = Inr \<lparr> loc_id = ''new'', Latitude = Num (1234 / 100), Longitude = Num (5678 / 100) \<rparr>
   \<and> locations (snd (handleSubmit accepting_service adding_state)) =
       [\<lparr> loc_id = ''new'', Latitude = Num (1234 / 100), Longitude = Num (5678 / 100) \<rparr>, loc_a, loc_b]"
proof -
  have 1: "formData adding_state = \<lparr> form_Latitude = ''12.34'', form_Longitude = ''56.78'' \<rparr>"
    and 2: "editingLocationId adding_state = None"
    and 3: "locations adding_state = [loc_a, loc_b]"
    by (simp_all add: adding_state_def)
  have 4: "addLocation accepting_service \<lparr> data_Latitude = Num (1234 / 100), data_Longitude = Num (5678 / 100) \<rparr>
       = Inr \<lparr> loc_id = ''new'', Latitude = Num (1234 / 100), Longitude = Num (5678 / 100) \<rparr>"
    by (simp add: accepting_service_def)
  show ?thesis
    using add_form_submit [OF 1 2, of accepting_service
        "\<lparr> loc_id = ''new'', Latitude = Num (1234 / 100), Longitude = Num (5678 / 100) \<rparr>"] 1 2 3 4
    by simp
qed

text \<open>
  C5.  For every location of the list, its identifier a document identifier and so
  not empty, an edit fills the form with the text of its \<open>Latitude\<close> and \<open>Longitude\<close>
  and stores its identifier as the editing id; the submit that follows makes one
  service call, \<open>updateLocation\<close> with that identifier; when it resolves, every entry
  of the list with that identifier is replaced by the returned record.
\<close>

theorem edit_then_submit_updates:
  assumes "loc \<in> set (locations s)" and "loc_id loc \<noteq> []"
  shows "formData (handleEdit toString loc s) =
           \<lparr> form_Latitude = toString (Latitude loc), form_Longitude = toString (Longitude loc) \<rparr>
     \<and> editingLocationId (handleEdit toString loc s) = Some (loc_id loc)
     \<and> service_calls (fst (handleSubmit svc (handleEdit toString loc s))) =
         [Call_updateLocation (loc_id loc)
            \<lparr> data_Latitude = parseFloat (toString (Latitude loc)),
              data_Longitude = parseFloat (toString (Longitude loc)) \<rparr>]
     \<and> (updateLocation svc (loc_id loc)
            \<lparr> data_Latitude = parseFloat (toString (Latitude loc)),
              data_Longitude = parseFloat (toString (Longitude loc)) \<rparr> = Inr updated \<longrightarrow>
         locations (snd (handleSubmit svc (handleEdit toString loc s))) =
           map (\<lambda>l. if loc_id l = loc_id loc then updated else l) (locations s))"
proof -
  let ?s1 = "handleEdit toString loc s"
  have form: "formData ?s1 =
           \<lparr> form_Latitude = toString (Latitude loc), form_Longitude = toString (Longitude loc) \<rparr>"
    and eid: "editingLocationId ?s1 = Some (loc_id loc)"
    and locs: "locations ?s1 = locations s"
    by (simp_all add: handleEdit_def)
  have data: "locationDataOf (formData ?s1) =
            \<lparr> data_Latitude = parseFloat (toString (Latitude loc)),
              data_Longitude = parseFloat (toString (Longitude loc)) \<rparr>"
    by (simp add: form locationDataOf_def)
  have calls: "service_calls (fst (handleSubmit svc ?s1)) =
         [Call_updateLocation (loc_id loc)
            \<lparr> data_Latitude = parseFloat (toString (Latitude loc)),
              data_Longitude = parseFloat (toString (Longitude loc)) \<rparr>]"
    using assms(2) by (simp add: submit_calls eid truthy_def data)
  have upd: "updateLocation svc (loc_id loc)
            \<lparr> data_Latitude = parseFloat (toString (Latitude loc)),
              data_Longitude = parseFloat (toString (Longitude loc)) \<rparr> = Inr updated \<longrightarrow>
         locations (snd (handleSubmit svc ?s1)) =
           map (\<lambda>l. if loc_id l = loc_id loc then updated else l) (locations s)"
    using submit_update_resolved [OF eid assms(2), of svc updated] by (simp add: data locs)
  from form eid calls upd show ?thesis by blast
qed

theorem edit_then_submit_updates_witness:
  "loc_b \<in> set (locations adding_state) \<and> loc_id loc_b \<noteq> []
   \<and> formData (handleEdit show_num loc_b adding_state) = \<lparr> form_Latitude = ''3'', form_Longitude = ''4'' \<rparr>
   \<and> editingLocationId (handleEdit show_num loc_b adding_state) = Some ''b''
   \<and> service_calls (fst (handleSubmit moving_service (handleEdit show_num loc_b adding_state))) =
         [Call_updateLocation ''b'' \<lparr> data_Latitude = Num 3, data_Longitude = Num 4 \<rparr>]
   \<and> updateLocation moving_service ''b'' \<lparr> data_Latitude = Num 3, data_Longitude = Num 4 \<rparr>
        = Inr moved_b
   \<and> locations adding_state = [loc_a, loc_b]
   \<and> locations (snd (handleSubmit moving_service (handleEdit show_num loc_b adding_state))) =
        [loc_a, moved_b]
   \<and> moved_b \<noteq> loc_b"
proof -
  have 1: "loc_b \<in> set (locations adding_state)"
    by (simp add: adding_state_def)
  have 2: "loc_id loc_b \<noteq> []"
    by (simp add: loc_b_def)
  have 3: "parseFloat ''3'' = Num 3" "parseFloat ''4'' = Num 4"
    by (simp_all add: parse_defs)
  have 4: "show_num (Latitude loc_b) = ''3''" "show_num (Longitude loc_b) = ''4''" "loc_id loc_b = ''b''"
    by (simp_all add: loc_b_def show_num_def)
  have 5: "updateLocation moving_service ''b'' \<lparr> data_Latitude = Num 3, data_Longitude = Num 4 \<rparr>
        = Inr moved_b"
    by (simp add: moving_service_def moved_b_def)
  have 6: "locations adding_state = [loc_a, loc_b]" "loc_id loc_a \<noteq> ''b''"
    by (simp_all add: adding_state_def loc_a_def)
  have 7: "moved_b \<noteq> loc_b"
    by (simp add: moved_b_def loc_b_def)
  show ?thesis
    using edit_then_submit_updates [OF 1 2, of show_num moving_service moved_b] 1 2 5 7
    by (simp add: 3 4 6)
qed

text \<open>
  C6.  A confirmed delete of an identifier of the list whose call resolves leaves the
  entries with other identifiers, in their order, and none with the deleted one; the
  rest of the state is unchanged.  A declined delete leaves the state unchanged and
  makes no service call.
\<close>

theorem delete_removes_target:
  "(i \<in> loc_id ` set (locations s) \<and> deleteLocation svc i = Inr () \<longrightarrow>
      locations (snd (handleDelete svc True i s)) = filter (\<lambda>loc. loc_id loc \<noteq> i) (locations s)
      \<and> i \<notin> loc_id ` set (locations (snd (handleDelete svc True i s)))
      \<and> length (locations (snd (handleDelete svc True i s))) < length (locations s)
      \<and> (snd (handleDelete svc True i s))\<lparr> locations := locations s \<rparr> = s
      \<and> service_calls (fst (handleDelete svc True i s)) = [Call_deleteLocation i])
   \<and> snd (handleDelete svc False i s) = s
   \<and> service_calls (fst (handleDelete svc False i s)) = []"
proof (intro conjI impI)
  assume a: "i \<in> loc_id ` set (locations s) \<and> deleteLocation svc i = Inr ()"
  then have run: "handleDelete svc True i s =
     ([Window_Confirm confirm_delete, Toast_Loading ''Deleting...'', Call_deleteLocation i,
       Toast_Success ''Location deleted.''],
      s\<lparr> locations := filter (\<lambda>loc. loc_id loc \<noteq> i) (locations s) \<rparr>)"
    by (simp add: delete_resolved)
  show "locations (snd (handleDelete svc True i s)) = filter (\<lambda>loc. loc_id loc \<noteq> i) (locations s)"
    by (simp add: run)
  show "i \<notin> loc_id ` set (locations (snd (handleDelete svc True i s)))"
    by (auto simp: run)
  from a obtain l where "l \<in> set (locations s)" "\<not> loc_id l \<noteq> i"
    by auto
  then have "length (filter (\<lambda>loc. loc_id loc \<noteq> i) (locations s)) < length (locations s)"
    by (rule length_filter_less)
  then show "length (locations (snd (handleDelete svc True i s))) < length (locations s)"
    by (simp add: run)
  show "(snd (handleDelete svc True i s))\<lparr> locations := locations s \<rparr> = s"
    by (simp add: run)
  show "service_calls (fst (handleDelete svc True i s)) = [Call_deleteLocation i]"
    by (simp add: run service_calls_def)
next
  show "snd (handleDelete svc False i s) = s"
    by (simp add: delete_declined)
  show "service_calls (fst (handleDelete svc False i s)) = []"
    by (simp add: delete_declined service_calls_def)
qed

theorem delete_removes_target_witness:
  "''a'' \<in> loc_id ` set (locations adding_state) \<and> deleteLocation accepting_service ''a'' = Inr ()
   \<and> locations (snd (handleDelete accepting_service True ''a'' adding_state)) = [loc_b]
   \<and> service_calls (fst (handleDelete accepting_service True ''a'' adding_state)) = [Call_deleteLocation ''a'']
   \<and> snd (handleDelete accepting_service False ''a'' adding_state) = adding_state
   \<and> service_calls (fst (handleDelete accepting_service False ''a'' adding_state)) = []"
proof -
  have 1: "''a'' \<in> loc_id ` set (locations adding_state)"
    by (simp add: adding_state_def loc_a_def)
  have 2: "deleteLocation accepting_service ''a'' = Inr ()"
    by (simp add: accepting_service_def)
  have 3: "filter (\<lambda>loc. loc_id loc \<noteq> ''a'') (locations adding_state) = [loc_b]"
    by (simp add: adding_state_def loc_a_def loc_b_def)
  show ?thesis
    using delete_removes_target [of "''a''" adding_state accepting_service] 1 2
    by (simp add: 3)
qed

text \<open>
  C10.  After a submit whose call resolved, add or update, the form fields are empty
  and the editing id is null, so the next submit, whatever the form then holds, calls
  \<open>addLocation\<close>.  After a submit whose call rejected, the form fields and the
  editing id are unchanged.
\<close>

theorem submit_resets_form:
  "(\<not> truthy (editingLocationId s) \<and> addLocation svc (locationDataOf (formData s)) = Inr r \<longrightarrow>
      formData (snd (handleSubmit svc s)) = \<lparr> form_Latitude = [], form_Longitude = [] \<rparr>
      \<and> editingLocationId (snd (handleSubmit svc s)) = None
      \<and> service_calls (fst (handleSubmit svc' ((snd (handleSubmit svc s))\<lparr> formData := f \<rparr>)))
          = [Call_addLocation (locationDataOf f)])
   \<and> (editingLocationId s = Some eid \<and> eid \<noteq> []
        \<and> updateLocation svc eid (locationDataOf (formData s)) = Inr r \<longrightarrow>
      formData (snd (handleSubmit svc s)) = \<lparr> form_Latitude = [], form_Longitude = [] \<rparr>
      \<and> editingLocationId (snd (handleSubmit svc s)) = None
      \<and> service_calls (fst (handleSubmit svc' ((snd (handleSubmit svc s))\<lparr> formData := f \<rparr>)))
          = [Call_addLocation (locationDataOf f)])
   \<and> (\<not> truthy (editingLocationId s) \<and> addLocation svc (locationDataOf (formData s)) = Inl err \<longrightarrow>
      formData (snd (handleSubmit svc s)) = formData s
      \<and> editingLocationId (snd (handleSubmit svc s)) = editingLocationId s)
   \<and> (editingLocationId s = Some eid \<and> eid \<noteq> []
        \<and> updateLocation svc eid (locationDataOf (formData s)) = Inl err \<longrightarrow>
      formData (snd (handleSubmit svc s)) = formData s
      \<and> editingLocationId (snd (handleSubmit svc s)) = editingLocationId s)"
  by (auto simp: submit_add_resolved submit_update_resolved submit_add_rejected submit_update_rejected
      submit_calls truthy_def empty_form_def)

theorem submit_resets_form_witness:
  "(\<not> truthy (editingLocationId adding_state)
      \<and> addLocation accepting_service (locationDataOf (formData adding_state))
           = Inr \<lparr> loc_id = ''new'', Latitude = Num (1234 / 100), Longitude = Num (5678 / 100) \<rparr>
      \<and> formData (snd (handleSubmit accepting_service adding_state)) = \<lparr> form_Latitude = [], form_Longitude = [] \<rparr>
      \<and> editingLocationId (snd (handleSubmit accepting_service adding_state)) = None
      \<and> service_calls (fst (handleSubmit rejecting_service
            ((snd (handleSubmit accepting_service adding_state))\<lparr> formData := formData editing_state \<rparr>)))
          = [Call_addLocation (locationDataOf (formData editing_state))])
   \<and> (editingLocationId editing_state = Some ''b'' \<and> ''b'' \<noteq> []
      \<and> updateLocation accepting_service ''b'' (locationDataOf (formData editing_state))
           = Inr \<lparr> loc_id = ''b'', Latitude = Num (15 / 10), Longitude = Num (25 / 10) \<rparr>
      \<and> formData (snd (handleSubmit accepting_service editing_state)) = \<lparr> form_Latitude = [], form_Longitude = [] \<rparr>
      \<and> editingLocationId (snd (handleSubmit accepting_service editing_state)) = None
      \<and> service_calls (fst (handleSubmit rejecting_service
            ((snd (handleSubmit accepting_service editing_state))\<lparr> formData := formData editing_state \<rparr>)))
          = [Call_addLocation (locationDataOf (formData editing_state))])
   \<and> (addLocation rejecting_service (locationDataOf (formData adding_state)) = Inl network_down
      \<and> formData (snd (handleSubmit rejecting_service adding_state)) = formData adding_state
      \<and> editingLocationId (snd (handleSubmit rejecting_service adding_state)) = None)
   \<and> (updateLocation rejecting_service ''b'' (locationDataOf (formData editing_state)) = Inl network_down
      \<and> formData (snd (handleSubmit rejecting_service editing_state)) = formData editing_state
      \<and> editingLocationId (snd (handleSubmit rejecting_service editing_state)) = Some ''b'')"
proof -
  have 1: "\<not> truthy (editingLocationId adding_state)" "editingLocationId adding_state = None"
    by (simp_all add: adding_state_def truthy_def)
  have 2: "addLocation accepting_service (locationDataOf (formData adding_state))
           = Inr \<lparr> loc_id = ''new'', Latitude = Num (1234 / 100), Longitude = Num (5678 / 100) \<rparr>"
    by (simp add: accepting_service_def adding_state_def locationDataOf_def parse_12_34 parse_56_78)
  have 3: "editingLocationId editing_state = Some ''b''"
    by (simp add: editing_state_def)
  have 4: "updateLocation accepting_service ''b'' (locationDataOf (formData editing_state))
           = Inr \<lparr> loc_id = ''b'', Latitude = Num (15 / 10), Longitude = Num (25 / 10) \<rparr>"
    by (simp add: accepting_service_def editing_state_def parse_defs)
  have 5: "addLocation rejecting_service (locationDataOf (formData adding_state)) = Inl network_down"
    "updateLocation rejecting_service ''b'' (locationDataOf (formData editing_state)) = Inl network_down"
    by (simp_all add: rejecting_service_def)
  show ?thesis
    using submit_resets_form [of adding_state accepting_service
          "\<lparr> loc_id = ''new'', Latitude = Num (1234 / 100), Longitude = Num (5678 / 100) \<rparr>"
          rejecting_service "formData editing_state" "''b''" network_down]
      submit_resets_form [of editing_state accepting_service
          "\<lparr> loc_id = ''b'', Latitude = Num (15 / 10), Longitude = Num (25 / 10) \<rparr>"
          rejecting_service "formData editing_state" "''b''" network_down]
      submit_resets_form [of adding_state rejecting_service
          "\<lparr> loc_id = ''b'', Latitude = Num (15 / 10), Longitude = Num (25 / 10) \<rparr>"
          rejecting_service "formData editing_state" "''b''" network_down]
      submit_resets_form [of editing_state rejecting_service
          "\<lparr> loc_id = ''b'', Latitude = Num (15 / 10), Longitude = Num (25 / 10) \<rparr>"
          rejecting_service "formData editing_state" "''b''" network_down]
      1 2 3 4 5
    by simp
qed

section \<open>AppearanceSettings: properties\<close>

text \<open>
  C7.  Choosing \<open>dark\<close> stores \<open>theme = dark\<close> and sets the root's dark flag;
  choosing \<open>system\<close> removes the stored key and makes the flag equal to the system
  preference read at that moment; choosing \<open>light\<close> stores \<open>theme = light\<close> and
  clears the flag.
\<close>

theorem theme_selection:
  "localStorage (handleThemeChange prefersDark ''dark'' s) ''theme'' = Some ''dark''
   \<and> dark_flag (handleThemeChange prefersDark ''dark'' s)
   \<and> localStorage (handleThemeChange prefersDark ''system'' s) ''theme'' = None
   \<and> dark_flag (handleThemeChange prefersDark ''system'' s) = prefersDark
   \<and> localStorage (handleThemeChange prefersDark ''light'' s) ''theme'' = Some ''light''
   \<and> \<not> dark_flag (handleThemeChange prefersDark ''light'' s)"
  by (simp add: handleThemeChange_def dark_flag_def toggle_def)

lemma handleChange_cases:
  "handleChange matches s =
     (if localStorage s ''theme'' = None \<or> localStorage s ''theme'' = Some []
      then s\<lparr> classList := toggle ''dark'' matches (classList s) \<rparr> else s)"
  by (simp add: handleChange_def truthy_def split: option.split)

text \<open>
  The domain of the persisted preference is kept by the two handlers: whichever
  button is clicked, and whenever the listener runs.
\<close>

lemma handleThemeChange_stored_theme_valid:
  "theme_button mode \<Longrightarrow> stored_theme_valid (handleThemeChange prefersDark mode s)"
  by (auto simp: theme_button_def stored_theme_valid_def handleThemeChange_def)

lemma handleChange_stored_theme_valid:
  "stored_theme_valid s \<Longrightarrow> stored_theme_valid (handleChange matches s)"
  by (simp add: stored_theme_valid_def handleChange_cases)

text \<open>
  C8.  With the persisted preference in its domain, a change of the system
  preference makes the listener set the root's dark flag to the new preference
  exactly when no theme is persisted; when a theme is persisted, the listener changes
  nothing, and the flag stays as it was.
\<close>

theorem system_change_listener:
  assumes "stored_theme_valid s"
  shows "handleChange matches s =
           (if localStorage s ''theme'' = None
            then s\<lparr> classList := toggle ''dark'' matches (classList s) \<rparr> else s)
     \<and> (localStorage s ''theme'' = None \<longrightarrow> dark_flag (handleChange matches s) = matches)
     \<and> (localStorage s ''theme'' \<noteq> None \<longrightarrow>
          handleChange matches s = s \<and> dark_flag (handleChange matches s) = dark_flag s)"
proof -
  have stored: "localStorage s ''theme'' \<noteq> Some []"
    using assms by (auto simp: stored_theme_valid_def)
  then have run: "handleChange matches s =
           (if localStorage s ''theme'' = None
            then s\<lparr> classList := toggle ''dark'' matches (classList s) \<rparr> else s)"
    by (simp add: handleChange_cases)
  show ?thesis
    by (simp add: run dark_flag_def toggle_def)
qed

theorem system_change_listener_witness:
  "stored_theme_valid system_state
   \<and> localStorage system_state ''theme'' = None
   \<and> dark_flag system_state \<and> \<not> dark_flag (handleChange False system_state)
   \<and> stored_theme_valid light_on_dark_os
   \<and> localStorage light_on_dark_os ''theme'' \<noteq> None
   \<and> \<not> dark_flag light_on_dark_os
   \<and> \<not> dark_flag (handleChange True light_on_dark_os)
   \<and> handleChange True light_on_dark_os = light_on_dark_os"
proof -
  have 1: "stored_theme_valid system_state" "localStorage system_state ''theme'' = None"
    "dark_flag system_state"
    by (simp_all add: system_state_def dark_flag_def stored_theme_valid_def)
  have 2: "stored_theme_valid light_on_dark_os" "localStorage light_on_dark_os ''theme'' \<noteq> None"
    "\<not> dark_flag light_on_dark_os"
    by (simp_all add: light_on_dark_os_def dark_flag_def stored_theme_valid_def)
  have 3: "dark_flag (handleChange False system_state) = False"
    using system_change_listener [OF 1(1), of False] 1(2) by blast
  have 4: "handleChange True light_on_dark_os = light_on_dark_os"
    using system_change_listener [OF 2(1), of True] 2(2) by blast
  show ?thesis
    using 1 2 3 4 by simp
qed

end
